theory Spec2Isabelle
  imports Main "HOL-Library.Word"
begin

unbundle bit_operations_syntax

section \<open>Host run loop and terminal lifecycle of Arduino.cpp\<close>

subsection \<open>Terminal settings\<close>

text \<open>
  \<^verbatim>\<open>struct termios\<close> as Linux declares it: four flag words of type
  \<^verbatim>\<open>tcflag_t\<close> (unsigned int), the line discipline, the control characters
  \<^verbatim>\<open>c_cc[NCCS]\<close> and the two speeds.
\<close>

type_synonym tcflag_t = "32 word"
type_synonym cc_t = "8 word"
type_synonym ulong = "64 word"

record termios =
  c_iflag :: tcflag_t
  c_oflag :: tcflag_t
  c_cflag :: tcflag_t
  c_lflag :: tcflag_t
  c_line :: cc_t
  c_cc :: "cc_t list"
  c_ispeed :: tcflag_t
  c_ospeed :: tcflag_t

text \<open>
  The constants of \<^verbatim>\<open><termios.h>\<close> that Arduino.cpp names, with their Linux values
  (the header writes them in octal). They belong to the platform, not to the repository.
\<close>

definition INPCK :: tcflag_t where "INPCK = 16"
definition ISTRIP :: tcflag_t where "ISTRIP = 32"
definition IXON :: tcflag_t where "IXON = 1024"
definition OPOST :: tcflag_t where "OPOST = 1"
definition ONLCR :: tcflag_t where "ONLCR = 4"
definition CSIZE :: tcflag_t where "CSIZE = 48"
definition CS8 :: tcflag_t where "CS8 = 48"
definition ISIG :: tcflag_t where "ISIG = 1"
definition ICANON :: tcflag_t where "ICANON = 2"
definition IEXTEN :: tcflag_t where "IEXTEN = 32768"
definition VTIME :: nat where "VTIME = 5"
definition VMIN :: nat where "VMIN = 6"
definition NCCS :: nat where "NCCS = 32"

text \<open>
  Lines 89 to 102 of \<^verbatim>\<open>enableRawMode\<close>: the local \<^verbatim>\<open>raw\<close> is a copy of the saved
  settings with four flag words and two control characters changed.
\<close>

definition raw_termios :: "termios \<Rightarrow> termios" where
  "raw_termios orig =
     orig\<lparr> c_iflag := c_iflag orig AND NOT (INPCK OR ISTRIP OR IXON),
           c_oflag := c_oflag orig OR (OPOST OR ONLCR),
           c_cflag := c_cflag orig OR CS8,
           c_lflag := c_lflag orig AND NOT (ICANON OR IEXTEN),
           c_cc := (c_cc orig)[VMIN := 0, VTIME := 0] \<rparr>"

subsection \<open>Process state and system calls\<close>

text \<open>
  Every call that leaves the process is recorded, in order. \<^verbatim>\<open>Tcgetattr\<close> and
  \<^verbatim>\<open>Tcsetattr\<close> carry whether the call succeeded, \<^verbatim>\<open>Tcsetattr\<close> also the settings it
  was given; \<^verbatim>\<open>Read_stdin\<close> carries the byte that \<^verbatim>\<open>read\<close> stored, if any.
\<close>

datatype event =
    Isatty
  | Tcgetattr bool
  | Tcsetattr termios bool
  | Perror string
  | Exit_call nat
  | Signal_SIGINT
  | Atexit_disableRawMode
  | Call_setup
  | Call_loop
  | Read_stdin "cc_t option"
  | InsertChar cc_t
  | Usleep nat

text \<open>
  The two statics of the file, \<^verbatim>\<open>orig_termios\<close> and \<^verbatim>\<open>inRawMode\<close>, and what the
  operating system holds: whether standard input is a terminal, the terminal's settings,
  the results of the coming \<^verbatim>\<open>tcgetattr\<close>/\<^verbatim>\<open>tcsetattr\<close> calls (\<open>True\<close> for 0,
  \<open>False\<close> for -1; a call beyond the end of the list succeeds) and what standard input
  holds for the coming \<^verbatim>\<open>read\<close> calls.
\<close>

text \<open>
  What standard input holds at the time of one \<^verbatim>\<open>read\<close>: a byte; nothing yet, while the
  other end is still open (\<open>Idle\<close>); or the end of the file or an error (\<open>Closed\<close>), where
  \<^verbatim>\<open>read\<close> returns 0 or -1 at once and stores nothing. Beyond the end of the list nothing
  arrives any more.
\<close>

datatype pending = Byte cc_t | Idle | Closed

record state =
  tty :: bool
  tty_attr :: termios
  tc_results :: "bool list"
  stdin :: "pending list"
  orig_termios :: termios
  inRawMode :: bool
  trace :: "event list"

text \<open>
  A call returns, or it ends the process through \<^verbatim>\<open>exit\<close>, or it jumps to a function
  that does not exist, or it waits in \<^verbatim>\<open>read\<close> for a byte that never arrives, or
  (the service loop only) it is still running when the observation ends.
\<close>

datatype result =
  Return state | Exit nat state | Crash state | Blocked state | Running state

definition log :: "event \<Rightarrow> state \<Rightarrow> state" where
  "log e s = s\<lparr>trace := trace s @ [e]\<rparr>"

definition isatty :: "state \<Rightarrow> bool \<times> state" where
  "isatty s = (tty s, log Isatty s)"

definition next_tc_ok :: "state \<Rightarrow> bool" where
  "next_tc_ok s = (case tc_results s of [] \<Rightarrow> True | ok # _ \<Rightarrow> ok)"

text \<open>\<^verbatim>\<open>tcgetattr(STDIN_FILENO, &orig_termios)\<close>: on success the static holds the terminal's
  settings; on failure it is left as it was.\<close>

definition tcgetattr :: "state \<Rightarrow> bool \<times> state" where
  "tcgetattr s =
     (let ok = next_tc_ok s;
          s' = log (Tcgetattr ok) (s\<lparr>tc_results := tl (tc_results s)\<rparr>)
      in (ok, if ok then s'\<lparr>orig_termios := tty_attr s\<rparr> else s'))"

text \<open>\<^verbatim>\<open>tcsetattr(STDIN_FILENO, TCSAFLUSH, &t)\<close>: on success the terminal has the settings
  \<open>t\<close>; on failure it keeps those it had.\<close>

definition tcsetattr :: "termios \<Rightarrow> state \<Rightarrow> bool \<times> state" where
  "tcsetattr t s =
     (let ok = next_tc_ok s;
          s' = log (Tcsetattr t ok) (s\<lparr>tc_results := tl (tc_results s)\<rparr>)
      in (ok, if ok then s'\<lparr>tty_attr := t\<rparr> else s'))"

definition perror :: "string \<Rightarrow> state \<Rightarrow> state" where
  "perror msg s = log (Perror msg) s"

definition exit_call :: "nat \<Rightarrow> state \<Rightarrow> result" where
  "exit_call status s = Exit status (log (Exit_call status) s)"

definition die :: "string \<Rightarrow> state \<Rightarrow> result" where
  "die msg s = exit_call 1 (perror msg s)"

subsection \<open>The terminal mode controller\<close>

definition disableRawMode :: "state \<Rightarrow> result" where
  "disableRawMode s =
     (case isatty s of (is_tty, s0) \<Rightarrow>
        if \<not> is_tty then Return s0
        else if \<not> inRawMode s0 then Return s0
        else (case tcsetattr (orig_termios s0) s0 of (restored, s1) \<Rightarrow>
          if \<not> restored
          then die ''disableRawMode(): tcsetattr() failure'' (s1\<lparr>inRawMode := False\<rparr>)
          else Return s1))"

definition enableRawMode :: "state \<Rightarrow> result" where
  "enableRawMode s =
     (case isatty s of (is_tty, s0) \<Rightarrow>
        if \<not> is_tty then Return s0
        else (case tcgetattr s0 of (captured, s1) \<Rightarrow>
          if \<not> captured then die ''enableRawMode(): tcgetattr() failure'' s1
          else (case tcsetattr (raw_termios (orig_termios s1)) s1 of (applied, s2) \<Rightarrow>
            if \<not> applied then die ''enableRawMode(): tcsetattr() failure'' s2
            else Return (s2\<lparr>inRawMode := True\<rparr>))))"

subsection \<open>The interrupt handler\<close>

definition handleControlC :: "state \<Rightarrow> result" where
  "handleControlC s =
     (case isatty s of (is_tty, s0) \<Rightarrow>
        if \<not> is_tty then Return s0
        else if inRawMode s0
        then (case tcsetattr (orig_termios s0) s0 of (restored, s1) \<Rightarrow>
          exit_call 1
            ((if \<not> restored then perror ''handleControlC(): tcsetattr() failure'' s1 else s1)
               \<lparr>inRawMode := False\<rparr>))
        else exit_call 1 s0)"

subsection \<open>The run loop scheduler\<close>

text \<open>
  \<^verbatim>\<open>setup\<close> and \<^verbatim>\<open>loop\<close> are declared weak and defined by the user's program, or not
  at all. A sketch says which of them the program defines. \<^verbatim>\<open>__main\<close> calls both without
  testing their address, and the address of a weak function that nothing defines is null:
  the call does not come back.
\<close>

record sketch =
  has_setup :: bool
  has_loop :: bool

definition call_weak :: "bool \<Rightarrow> event \<Rightarrow> state \<Rightarrow> result" where
  "call_weak defined e s = (if defined then Return (log e s) else Crash s)"

text \<open>
  \<^verbatim>\<open>read(STDIN_FILENO, &c, 1)\<close> is an ordinary read: the file is not opened or set
  non-blocking anywhere. It comes back with nothing while standard input is idle only when
  standard input is a terminal in non-canonical mode with \<^verbatim>\<open>c_cc[VMIN]\<close> zero (at once
  when \<^verbatim>\<open>c_cc[VTIME]\<close> is zero too, else when that timer runs out), which is what
  \<^verbatim>\<open>enableRawMode\<close> sets on a terminal. Otherwise it waits.
\<close>

definition polling :: "state \<Rightarrow> bool" where
  "polling s =
     (tty s \<and> c_lflag (tty_attr s) AND ICANON = 0 \<and> c_cc (tty_attr s) ! VMIN = 0)"

text \<open>What one \<^verbatim>\<open>read\<close> of one byte stores, and what it leaves on standard input;
  \<open>None\<close> when it never comes back.\<close>

fun read_outcome :: "bool \<Rightarrow> pending list \<Rightarrow> (cc_t option \<times> pending list) option" where
  "read_outcome p (Byte b # rest) = Some (Some b, rest)"
| "read_outcome p (Closed # rest) = Some (None, rest)"
| "read_outcome p (Idle # rest) = (if p then Some (None, rest) else read_outcome p rest)"
| "read_outcome p [] = (if p then Some (None, []) else None)"

text \<open>\<^verbatim>\<open>char c = '\0'; read(STDIN_FILENO, &c, 1);\<close> gives the value of \<^verbatim>\<open>c\<close> afterwards:
  the byte read, or still zero when \<^verbatim>\<open>read\<close> stored nothing. \<^verbatim>\<open>Read_stdin\<close> is
  recorded when the call comes back.\<close>

definition read_stdin :: "state \<Rightarrow> (cc_t \<times> state) option" where
  "read_stdin s =
     (case read_outcome (polling s) (stdin s) of
        None \<Rightarrow> None
      | Some (r, rest) \<Rightarrow>
          Some (case r of None \<Rightarrow> 0 | Some b \<Rightarrow> b, log (Read_stdin r) (s\<lparr>stdin := rest\<rparr>)))"

definition yield :: "state \<Rightarrow> state" where
  "yield s = log (Usleep 1000) s"

text \<open>One pass through the body of \<^verbatim>\<open>while (true)\<close>.\<close>

definition loop_iteration :: "sketch \<Rightarrow> state \<Rightarrow> result" where
  "loop_iteration sk s =
     (case read_stdin s of
        None \<Rightarrow> Blocked s
      | Some (c, s1) \<Rightarrow>
        (case call_weak (has_loop sk) Call_loop (if c \<noteq> 0 then log (InsertChar c) s1 else s1) of
           Return s2 \<Rightarrow> Return (yield s2)
         | r \<Rightarrow> r))"

text \<open>The loop has no exit of its own. It is observed for \<open>n\<close> passes: after them it is
  still \<open>Running\<close>, unless a pass ended the process or got stuck in \<^verbatim>\<open>read\<close> before.\<close>

fun service_loop :: "nat \<Rightarrow> sketch \<Rightarrow> state \<Rightarrow> result" where
  "service_loop 0 sk s = Running s"
| "service_loop (Suc n) sk s =
     (case loop_iteration sk s of
        Return s' \<Rightarrow> service_loop n sk s'
      | r \<Rightarrow> r)"

text \<open>\<^verbatim>\<open>__main\<close>, observed for \<open>n\<close> passes of its loop.\<close>

definition arduino_main :: "nat \<Rightarrow> sketch \<Rightarrow> state \<Rightarrow> result" where
  "arduino_main n sk s =
     (case enableRawMode (log Atexit_disableRawMode (log Signal_SIGINT s)) of
        Return s1 \<Rightarrow>
          (case call_weak (has_setup sk) Call_setup s1 of
             Return s2 \<Rightarrow> service_loop n sk s2
           | r \<Rightarrow> r)
      | r \<Rightarrow> r)"

subsection \<open>The clock\<close>

text \<open>
  \<^verbatim>\<open>struct timespec\<close> where \<^verbatim>\<open>time_t\<close> and \<^verbatim>\<open>long\<close> have 64 bits, as
  \<^verbatim>\<open>unsigned long\<close> has; the two signed fields are kept as their bit patterns and read
  with \<open>sint\<close>.
  \<^verbatim>\<open>clock_gettime\<close> fills the local \<^verbatim>\<open>spec\<close> when it succeeds (\<open>Some\<close>) and leaves it as
  it was, never initialised, when it fails (\<open>None\<close>). Its return value is dropped.
\<close>

record timespec =
  tv_sec :: ulong
  tv_nsec :: ulong

datatype 'a outcome = Returned 'a | Aborted

definition clock_gettime :: "timespec option \<Rightarrow> timespec \<Rightarrow> timespec" where
  "clock_gettime clk spec = (case clk of Some now \<Rightarrow> now | None \<Rightarrow> spec)"

text \<open>Division of two \<^verbatim>\<open>long\<close> values: the quotient is truncated towards zero.\<close>

definition long_div :: "ulong \<Rightarrow> ulong \<Rightarrow> ulong" where
  "long_div a b = word_of_int (sgn (sint a) * sgn (sint b) * (\<bar>sint a\<bar> div \<bar>sint b\<bar>))"

text \<open>
  In \<^verbatim>\<open>spec.tv_sec * 1000U + spec.tv_nsec / 1000000UL\<close> the divisor is an
  \<^verbatim>\<open>unsigned long\<close>, so \<^verbatim>\<open>tv_nsec\<close> is converted and the division is unsigned. In
  \<^verbatim>\<open>spec.tv_sec * 1000000UL + spec.tv_nsec / 1000U\<close> the divisor is an \<^verbatim>\<open>unsigned int\<close>,
  which is converted to \<^verbatim>\<open>long\<close>: the division is signed. Both sums are
  \<^verbatim>\<open>unsigned long\<close>.
\<close>

definition millis :: "timespec option \<Rightarrow> timespec \<Rightarrow> ulong outcome" where
  "millis clk uninit =
     (let spec = clock_gettime clk uninit
      in Returned (tv_sec spec * 1000 + tv_nsec spec div 1000000))"

definition micros :: "timespec option \<Rightarrow> timespec \<Rightarrow> ulong outcome" where
  "micros clk uninit =
     (let spec = clock_gettime clk uninit
      in Returned (tv_sec spec * 1000000 + long_div (tv_nsec spec) 1000))"

subsection \<open>Reading results and traces\<close>

definition exit_status :: "result \<Rightarrow> nat option" where
  "exit_status r = (case r of Exit n _ \<Rightarrow> Some n | _ \<Rightarrow> None)"

definition final_state :: "result \<Rightarrow> state" where
  "final_state r =
     (case r of Return s \<Rightarrow> s | Exit _ s \<Rightarrow> s | Crash s \<Rightarrow> s | Blocked s \<Rightarrow> s | Running s \<Rightarrow> s)"

definition is_return :: "result \<Rightarrow> bool" where
  "is_return r = (case r of Return _ \<Rightarrow> True | _ \<Rightarrow> False)"

definition is_running :: "result \<Rightarrow> bool" where
  "is_running r = (case r of Running _ \<Rightarrow> True | _ \<Rightarrow> False)"

definition is_blocked :: "result \<Rightarrow> bool" where
  "is_blocked r = (case r of Blocked _ \<Rightarrow> True | _ \<Rightarrow> False)"

fun is_tc_call :: "event \<Rightarrow> bool" where
  "is_tc_call (Tcgetattr _) = True"
| "is_tc_call (Tcsetattr _ _) = True"
| "is_tc_call _ = False"

fun is_restore :: "event \<Rightarrow> bool" where
  "is_restore (Tcsetattr _ _) = True"
| "is_restore _ = False"

text \<open>What a call added to the trace.\<close>

definition new_events :: "state \<Rightarrow> result \<Rightarrow> event list" where
  "new_events s r = drop (length (trace s)) (trace (final_state r))"

text \<open>Two example machines: a terminal in cooked mode, and standard input from a pipe.\<close>

definition cooked :: termios where
  "cooked = \<lparr> c_iflag = 1280, c_oflag = 5, c_cflag = 191, c_lflag = 35387, c_line = 0,
              c_cc = [3, 28, 127, 21, 4, 0, 1, 0, 17, 19, 26, 0, 18, 15, 23, 22,
                      0, 0, 0, 0, 0, 0, 0, 0, 0, 0, 0, 0, 0, 0, 0, 0],
              c_ispeed = 15, c_ospeed = 15 \<rparr>"

definition zero_termios :: termios where
  "zero_termios = \<lparr> c_iflag = 0, c_oflag = 0, c_cflag = 0, c_lflag = 0, c_line = 0,
                    c_cc = replicate 32 0, c_ispeed = 0, c_ospeed = 0 \<rparr>"

definition console :: state where
  "console = \<lparr> tty = True, tty_attr = cooked, tc_results = [], stdin = [],
               orig_termios = zero_termios, inRawMode = False, trace = [] \<rparr>"

definition piped :: state where
  "piped = console\<lparr> tty := False \<rparr>"

definition raw_console :: state where
  "raw_console = console\<lparr> tty_attr := raw_termios cooked, orig_termios := cooked,
                          inRawMode := True \<rparr>"

text \<open>The states the console goes through when raw mode is enabled, then disabled, and when
  it is enabled a second time.\<close>

definition after_enable :: state where
  "after_enable = final_state (enableRawMode console)"

definition after_disable :: state where
  "after_disable = final_state (disableRawMode after_enable)"

definition after_enable_twice :: state where
  "after_enable_twice = final_state (enableRawMode after_enable)"

subsection \<open>Sequences of calls\<close>

text \<open>A sequence of calls of the two operations, one after the other; it ends early when a
  call ends the process.\<close>

datatype call = Enable | Disable

fun run_call :: "call \<Rightarrow> state \<Rightarrow> result" where
  "run_call Enable s = enableRawMode s"
| "run_call Disable s = disableRawMode s"

fun run_calls :: "call list \<Rightarrow> state \<Rightarrow> result" where
  "run_calls [] s = Return s"
| "run_calls (c # cs) s =
     (case run_call c s of
        Return s' \<Rightarrow> run_calls cs s'
      | r \<Rightarrow> r)"

subsection \<open>What the service loop is expected to log\<close>

text \<open>What a \<^verbatim>\<open>read\<close> that comes back has stored.\<close>

fun stored :: "pending \<Rightarrow> cc_t option" where
  "stored (Byte b) = Some b"
| "stored Idle = None"
| "stored Closed = None"

text \<open>What the first \<open>n\<close> calls of a \<^verbatim>\<open>read\<close> that never waits store: each takes what
  standard input holds at its time.\<close>

fun polled :: "nat \<Rightarrow> pending list \<Rightarrow> cc_t option list" where
  "polled 0 input = []"
| "polled (Suc n) [] = None # polled n []"
| "polled (Suc n) (x # input) = stored x # polled n input"

text \<open>What the first \<open>n\<close> calls of a \<^verbatim>\<open>read\<close> that waits store: idle times are waited
  through, and once nothing arrives any more no call comes back.\<close>

definition nonidle :: "pending list \<Rightarrow> pending list" where
  "nonidle input = filter (\<lambda>x. x \<noteq> Idle) input"

definition waited :: "nat \<Rightarrow> pending list \<Rightarrow> cc_t option list" where
  "waited n input = map stored (take n (nonidle input))"

definition reads :: "bool \<Rightarrow> nat \<Rightarrow> pending list \<Rightarrow> cc_t option list" where
  "reads p n input = (if p then polled n input else waited n input)"

text \<open>The bytes one \<^verbatim>\<open>read\<close> hands to \<^verbatim>\<open>Serial.insertChar\<close>: the byte it stored, unless
  that byte is zero.\<close>

definition forwarded :: "cc_t option \<Rightarrow> cc_t list" where
  "forwarded r = (case r of None \<Rightarrow> [] | Some b \<Rightarrow> if b \<noteq> 0 then [b] else [])"

definition pass_events :: "cc_t option \<Rightarrow> event list" where
  "pass_events r = Read_stdin r # map InsertChar (forwarded r) @ [Call_loop, Usleep 1000]"

fun is_insert :: "event \<Rightarrow> bool" where
  "is_insert (InsertChar _) = True"
| "is_insert _ = False"

text \<open>What a call of \<^verbatim>\<open>enableRawMode\<close> that returns has logged.\<close>

definition enable_events :: "state \<Rightarrow> event list" where
  "enable_events s =
     (if tty s then [Isatty, Tcgetattr True, Tcsetattr (raw_termios (tty_attr s)) True]
      else [Isatty])"

text \<open>A program that defines both callbacks. A user who types \<^verbatim>\<open>A\<close>, then a zero byte and
  a newline, with idle times between: at the console before \<^verbatim>\<open>__main\<close> starts, at the
  console in raw mode, and through a pipe that is closed afterwards.\<close>

definition full_sketch :: sketch where
  "full_sketch = \<lparr> has_setup = True, has_loop = True \<rparr>"

definition typed_A :: state where
  "typed_A = console\<lparr> stdin := [Idle, Byte 65, Idle, Byte 0, Byte 10] \<rparr>"

definition typed_A_raw :: state where
  "typed_A_raw = raw_console\<lparr> stdin := [Idle, Byte 65, Idle, Byte 0, Byte 10] \<rparr>"

definition piped_A :: state where
  "piped_A = piped\<lparr> stdin := [Idle, Byte 65, Idle, Byte 0, Byte 10, Closed] \<rparr>"

section \<open>Properties\<close>

subsection \<open>The operations, case by case\<close>

lemmas termios_consts =
  INPCK_def ISTRIP_def IXON_def OPOST_def ONLCR_def CSIZE_def CS8_def
  ISIG_def ICANON_def IEXTEN_def VTIME_def VMIN_def NCCS_def

lemmas sys_defs = isatty_def tcgetattr_def tcsetattr_def perror_def exit_call_def die_def
  log_def Let_def

text \<open>
  Each operation written out as the flat list of its paths: what it returns or how it
  exits, and the state it leaves.
\<close>

lemma disableRawMode_cases:
  "disableRawMode s =
    (if \<not> tty s \<or> \<not> inRawMode s then Return (log Isatty s)
     else if next_tc_ok s
       then Return (s\<lparr>tc_results := tl (tc_results s), tty_attr := orig_termios s,
              trace := trace s @ [Isatty, Tcsetattr (orig_termios s) True]\<rparr>)
       else Exit 1 (s\<lparr>tc_results := tl (tc_results s), inRawMode := False,
              trace := trace s @ [Isatty, Tcsetattr (orig_termios s) False,
                Perror ''disableRawMode(): tcsetattr() failure'', Exit_call 1]\<rparr>))"
  by (simp add: disableRawMode_def sys_defs next_tc_ok_def)

lemma enableRawMode_cases:
  "enableRawMode s =
    (if \<not> tty s then Return (log Isatty s)
     else if \<not> next_tc_ok s
       then Exit 1 (s\<lparr>tc_results := tl (tc_results s),
              trace := trace s @ [Isatty, Tcgetattr False,
                Perror ''enableRawMode(): tcgetattr() failure'', Exit_call 1]\<rparr>)
     else if \<not> next_tc_ok (s\<lparr>tc_results := tl (tc_results s)\<rparr>)
       then Exit 1 (s\<lparr>tc_results := tl (tl (tc_results s)), orig_termios := tty_attr s,
              trace := trace s @ [Isatty, Tcgetattr True,
                Tcsetattr (raw_termios (tty_attr s)) False,
                Perror ''enableRawMode(): tcsetattr() failure'', Exit_call 1]\<rparr>)
     else Return (s\<lparr>tc_results := tl (tl (tc_results s)), orig_termios := tty_attr s,
              tty_attr := raw_termios (tty_attr s), inRawMode := True,
              trace := trace s @ [Isatty, Tcgetattr True,
                Tcsetattr (raw_termios (tty_attr s)) True]\<rparr>))"
  by (simp add: enableRawMode_def sys_defs next_tc_ok_def)

lemma handleControlC_cases:
  "handleControlC s =
    (if \<not> tty s then Return (log Isatty s)
     else if \<not> inRawMode s then Exit 1 (s\<lparr>trace := trace s @ [Isatty, Exit_call 1]\<rparr>)
     else if next_tc_ok s
       then Exit 1 (s\<lparr>tc_results := tl (tc_results s), tty_attr := orig_termios s,
              inRawMode := False,
              trace := trace s @ [Isatty, Tcsetattr (orig_termios s) True, Exit_call 1]\<rparr>)
       else Exit 1 (s\<lparr>tc_results := tl (tc_results s), inRawMode := False,
              trace := trace s @ [Isatty, Tcsetattr (orig_termios s) False,
                Perror ''handleControlC(): tcsetattr() failure'', Exit_call 1]\<rparr>))"
  by (simp add: handleControlC_def sys_defs next_tc_ok_def)

lemma new_events_Exit [simp]:
  "trace s' = trace s @ es \<Longrightarrow> new_events s (Exit n s') = es"
  by (simp add: new_events_def final_state_def)

lemma new_events_Return [simp]:
  "trace s' = trace s @ es \<Longrightarrow> new_events s (Return s') = es"
  by (simp add: new_events_def final_state_def)

lemma new_events_Running:
  "trace s' = trace s @ es \<Longrightarrow> new_events s (Running s') = es"
  by (simp add: new_events_def final_state_def)

subsection \<open>The example console, step by step\<close>

lemma enable_console:
  "enableRawMode console =
     Return (console\<lparr>tty_attr := raw_termios cooked, orig_termios := cooked, inRawMode := True,
               trace := [Isatty, Tcgetattr True, Tcsetattr (raw_termios cooked) True]\<rparr>)"
  by (simp add: enableRawMode_cases console_def next_tc_ok_def)

lemma after_enable_eq:
  "after_enable =
     console\<lparr>tty_attr := raw_termios cooked, orig_termios := cooked, inRawMode := True,
               trace := [Isatty, Tcgetattr True, Tcsetattr (raw_termios cooked) True]\<rparr>"
  by (simp add: after_enable_def enable_console final_state_def)

lemma disable_after_enable:
  "disableRawMode after_enable =
     Return (console\<lparr>orig_termios := cooked, inRawMode := True,
               trace := [Isatty, Tcgetattr True, Tcsetattr (raw_termios cooked) True,
                         Isatty, Tcsetattr cooked True]\<rparr>)"
  by (simp add: after_enable_eq disableRawMode_cases console_def next_tc_ok_def)

lemma after_disable_eq:
  "after_disable =
     console\<lparr>orig_termios := cooked, inRawMode := True,
               trace := [Isatty, Tcgetattr True, Tcsetattr (raw_termios cooked) True,
                         Isatty, Tcsetattr cooked True]\<rparr>"
  by (simp add: after_disable_def disable_after_enable final_state_def)

lemma list_update_twice:
  "xs[a := x, b := y, a := x, b := y] = xs[a := x, b := y]"
proof (cases "a = b")
  case True
  then show ?thesis by simp
next
  case False
  then have "xs[a := x, b := y, a := x] = xs[a := x, a := x, b := y]"
    by (rule list_update_swap [symmetric])
  then show ?thesis by simp
qed

lemma raw_termios_idem: "raw_termios (raw_termios t) = raw_termios t"
  by (simp add: raw_termios_def list_update_twice)

lemma enable_after_enable:
  "enableRawMode after_enable =
     Return (console\<lparr>tty_attr := raw_termios cooked, orig_termios := raw_termios cooked,
               inRawMode := True,
               trace := [Isatty, Tcgetattr True, Tcsetattr (raw_termios cooked) True,
                         Isatty, Tcgetattr True, Tcsetattr (raw_termios cooked) True]\<rparr>)"
  by (simp add: after_enable_eq enableRawMode_cases console_def next_tc_ok_def raw_termios_idem)

lemma after_enable_twice_eq:
  "after_enable_twice =
     console\<lparr>tty_attr := raw_termios cooked, orig_termios := raw_termios cooked,
               inRawMode := True,
               trace := [Isatty, Tcgetattr True, Tcsetattr (raw_termios cooked) True,
                         Isatty, Tcgetattr True, Tcsetattr (raw_termios cooked) True]\<rparr>"
  by (simp add: after_enable_twice_def enable_after_enable final_state_def)

lemma raw_cooked_differs: "raw_termios cooked \<noteq> cooked"
  by (simp add: raw_termios_def cooked_def termios_consts)

subsection \<open>What the raw settings change\<close>

lemma and_not_mask:
  fixes x m :: "'a::len word"
  shows "(x AND NOT m) AND m = 0" and "(x AND NOT m) AND NOT m = x AND NOT m"
  by (auto simp add: bit_eq_iff bit_simps)

lemma or_mask:
  fixes x m :: "'a::len word"
  shows "(x OR m) AND m = m" and "(x OR m) AND NOT m = x AND NOT m"
  by (auto simp add: bit_eq_iff bit_simps)

lemma and_not_mask_disjoint:
  fixes x m k :: "'a::len word"
  assumes "m AND k = 0"
  shows "(x AND NOT m) AND k = x AND k"
proof -
  have "\<not> (bit m n \<and> bit k n)" for n
    using assms by (metis bit_and_iff bit_0_eq bot_apply bot_bool_def)
  then show ?thesis
    by (auto simp add: bit_eq_iff bit_simps)
qed

lemma raw_fields:
  "c_iflag (raw_termios t) = c_iflag t AND NOT (INPCK OR ISTRIP OR IXON)"
  "c_oflag (raw_termios t) = c_oflag t OR (OPOST OR ONLCR)"
  "c_cflag (raw_termios t) = c_cflag t OR CS8"
  "c_lflag (raw_termios t) = c_lflag t AND NOT (ICANON OR IEXTEN)"
  by (simp_all add: raw_termios_def)

lemma raw_iflag:
  "c_iflag (raw_termios t) AND (INPCK OR ISTRIP OR IXON) = 0
   \<and> c_iflag (raw_termios t) AND NOT (INPCK OR ISTRIP OR IXON)
       = c_iflag t AND NOT (INPCK OR ISTRIP OR IXON)"
  by (simp only: raw_fields and_not_mask)

lemma raw_oflag:
  "c_oflag (raw_termios t) AND (OPOST OR ONLCR) = OPOST OR ONLCR
   \<and> c_oflag (raw_termios t) AND NOT (OPOST OR ONLCR)
       = c_oflag t AND NOT (OPOST OR ONLCR)"
  by (simp only: raw_fields or_mask)

lemma raw_cflag:
  "c_cflag (raw_termios t) AND CSIZE = CS8
   \<and> c_cflag (raw_termios t) AND NOT CSIZE = c_cflag t AND NOT CSIZE"
proof -
  have "CSIZE = CS8" by (simp add: CSIZE_def CS8_def)
  then show ?thesis by (simp only: raw_fields or_mask)
qed

lemma raw_lflag:
  "c_lflag (raw_termios t) AND (ICANON OR IEXTEN) = 0
   \<and> c_lflag (raw_termios t) AND NOT (ICANON OR IEXTEN)
       = c_lflag t AND NOT (ICANON OR IEXTEN)
   \<and> c_lflag (raw_termios t) AND ISIG = c_lflag t AND ISIG"
proof -
  have "(ICANON OR IEXTEN) AND ISIG = 0"
    by (simp add: termios_consts)
  then show ?thesis
    by (simp only: raw_fields and_not_mask and_not_mask_disjoint)
qed

lemma raw_cc:
  "length (c_cc t) = NCCS \<Longrightarrow>
    length (c_cc (raw_termios t)) = NCCS
    \<and> c_cc (raw_termios t) ! VMIN = 0 \<and> c_cc (raw_termios t) ! VTIME = 0
    \<and> (\<forall>i<NCCS. i \<noteq> VMIN \<longrightarrow> i \<noteq> VTIME \<longrightarrow> c_cc (raw_termios t) ! i = c_cc t ! i)"
  by (simp add: raw_termios_def VMIN_def VTIME_def NCCS_def)

lemma raw_rest:
  "c_line (raw_termios t) = c_line t \<and> c_ispeed (raw_termios t) = c_ispeed t
    \<and> c_ospeed (raw_termios t) = c_ospeed t"
  by (simp add: raw_termios_def)

subsection \<open>The interrupt handler\<close>

text \<open>
  Claim C1, as amended. When standard input is an interactive terminal, every delivery of the
  interrupt signal to the handler ends the process with status 1. If the raw-mode flag is
  true there is exactly one restoration attempt, a \<^verbatim>\<open>tcsetattr\<close> with the saved settings,
  whether it succeeds or not; if the flag is false there is none. Either way the flag is
  false afterwards, so that \<^verbatim>\<open>disableRawMode\<close>, which \<^verbatim>\<open>exit\<close> runs as the registered
  exit function, makes no further attempt.
\<close>

theorem handleControlC_interactive:
  assumes "tty s"
  shows "exit_status (handleControlC s) = Some 1
    \<and> filter is_restore (new_events s (handleControlC s)) =
        (if inRawMode s then [Tcsetattr (orig_termios s) (next_tc_ok s)] else [])
    \<and> last (new_events s (handleControlC s)) = Exit_call 1
    \<and> \<not> inRawMode (final_state (handleControlC s))
    \<and> disableRawMode (final_state (handleControlC s)) =
        Return (log Isatty (final_state (handleControlC s)))"
  using assms
  by (simp add: handleControlC_cases disableRawMode_cases exit_status_def final_state_def)

theorem handleControlC_interactive_witness:
  "tty raw_console \<and> inRawMode raw_console
    \<and> exit_status (handleControlC raw_console) = Some 1
    \<and> filter is_restore (new_events raw_console (handleControlC raw_console)) =
        [Tcsetattr cooked True]
    \<and> tty console \<and> \<not> inRawMode console
    \<and> exit_status (handleControlC console) = Some 1
    \<and> filter is_restore (new_events console (handleControlC console)) = []"
  using handleControlC_interactive [of raw_console] handleControlC_interactive [of console]
  by (simp add: raw_console_def console_def next_tc_ok_def)

text \<open>
  Claim C1 as stated fails when standard input is not a terminal: the handler returns at its
  first line, and the process is not ended at all.
\<close>

theorem handleControlC_piped_returns:
  "\<not> inRawMode piped \<and> exit_status (handleControlC piped) = None
     \<and> handleControlC piped = Return (log Isatty piped)"
  by (simp add: handleControlC_cases piped_def console_def exit_status_def)

subsection \<open>Enabling and disabling raw mode\<close>

text \<open>
  Claim C2 does not hold of the code. \<^verbatim>\<open>disableRawMode\<close> clears the flag only on the path
  where \<^verbatim>\<open>tcsetattr\<close> fails. On the console, after raw mode is enabled and disabled once
  with success, the flag is still true, a second call restores the settings again, and if
  that second \<^verbatim>\<open>tcsetattr\<close> fails the call ends the process with status 1.
\<close>

theorem disable_twice_restores_twice:
  "enableRawMode console = Return after_enable
    \<and> disableRawMode after_enable = Return after_disable
    \<and> tty_attr after_disable = cooked
    \<and> inRawMode after_disable
    \<and> new_events after_disable (disableRawMode after_disable) = [Isatty, Tcsetattr cooked True]
    \<and> exit_status (disableRawMode (after_disable\<lparr>tc_results := [False]\<rparr>)) = Some 1"
proof -
  have "enableRawMode console = Return after_enable"
    by (simp add: enable_console after_enable_eq)
  moreover have "disableRawMode after_enable = Return after_disable"
    by (simp add: disable_after_enable after_disable_eq)
  moreover have "tty_attr after_disable = cooked" "inRawMode after_disable"
    by (simp_all add: after_disable_eq console_def)
  moreover have "new_events after_disable (disableRawMode after_disable)
      = [Isatty, Tcsetattr cooked True]"
    by (simp add: after_disable_eq disableRawMode_cases console_def next_tc_ok_def)
  moreover have "exit_status (disableRawMode (after_disable\<lparr>tc_results := [False]\<rparr>)) = Some 1"
    by (simp add: after_disable_eq disableRawMode_cases console_def next_tc_ok_def
        exit_status_def)
  ultimately show ?thesis by simp
qed

text \<open>
  Claim C3. On an interactive terminal, when \<^verbatim>\<open>enableRawMode\<close> returns and the
  \<^verbatim>\<open>disableRawMode\<close> that follows it returns, the terminal has the settings again that it
  had before the first call; in between it had the raw ones.
\<close>

theorem enable_disable_round_trip:
  assumes "tty s" and "enableRawMode s = Return s1" and "disableRawMode s1 = Return s2"
  shows "tty_attr s1 = raw_termios (tty_attr s) \<and> tty_attr s2 = tty_attr s"
  using assms
  by (auto simp add: enableRawMode_cases disableRawMode_cases split: if_splits)

theorem enable_disable_round_trip_witness:
  "tty console \<and> enableRawMode console = Return after_enable
    \<and> disableRawMode after_enable = Return after_disable
    \<and> tty_attr console = cooked
    \<and> tty_attr after_enable = raw_termios cooked
    \<and> raw_termios cooked \<noteq> cooked
    \<and> tty_attr after_disable = cooked"
proof -
  have h1: "tty console" and c: "tty_attr console = cooked"
    by (simp_all add: console_def)
  have h2: "enableRawMode console = Return after_enable"
    by (simp add: enable_console after_enable_eq)
  have h3: "disableRawMode after_enable = Return after_disable"
    by (simp add: disable_after_enable after_disable_eq)
  from enable_disable_round_trip [OF h1 h2 h3] h1 h2 h3 c raw_cooked_differs
  show ?thesis by simp
qed

lemma run_call_piped: "\<not> tty s \<Longrightarrow> run_call c s = Return (log Isatty s)"
  by (cases c) (simp_all add: enableRawMode_cases disableRawMode_cases)

lemma run_calls_piped:
  "\<not> tty s \<Longrightarrow>
     run_calls cs s = Return (s\<lparr>trace := trace s @ replicate (length cs) Isatty\<rparr>)"
proof (induction cs arbitrary: s)
  case Nil
  then show ?case by simp
next
  case (Cons c cs)
  from Cons.prems have "\<not> tty (log Isatty s)"
    by (simp add: log_def)
  from Cons.IH [OF this] Cons.prems show ?case
    by (simp add: run_call_piped log_def replicate_append_same)
qed

text \<open>
  Claim C4. While standard input is not a terminal, any sequence of calls of
  \<^verbatim>\<open>enableRawMode\<close> and \<^verbatim>\<open>disableRawMode\<close> returns and leaves the whole state as it was,
  the flag and the saved settings included, but for one \<^verbatim>\<open>isatty\<close> per call in the trace:
  no \<^verbatim>\<open>tcgetattr\<close> and no \<^verbatim>\<open>tcsetattr\<close> is made.
\<close>

theorem noninteractive_calls_are_noops:
  assumes "\<not> tty s"
  shows "run_calls cs s = Return (s\<lparr>trace := trace s @ replicate (length cs) Isatty\<rparr>)
    \<and> filter is_tc_call (new_events s (run_calls cs s)) = []
    \<and> inRawMode (final_state (run_calls cs s)) = inRawMode s
    \<and> orig_termios (final_state (run_calls cs s)) = orig_termios s
    \<and> tty_attr (final_state (run_calls cs s)) = tty_attr s"
  using run_calls_piped [OF assms, of cs]
  by (simp add: final_state_def)

theorem noninteractive_calls_are_noops_witness:
  "\<not> tty piped
    \<and> run_calls [Enable, Disable, Disable, Enable] piped =
        Return (piped\<lparr>trace := [Isatty, Isatty, Isatty, Isatty]\<rparr>)
    \<and> filter is_tc_call (new_events piped (run_calls [Enable, Disable, Disable, Enable] piped)) = []"
  using noninteractive_calls_are_noops [of piped "[Enable, Disable, Disable, Enable]"]
  by (simp add: piped_def console_def)

text \<open>
  Claim C5. On an interactive terminal, a call of \<^verbatim>\<open>enableRawMode\<close> that returns has saved
  the settings it found and has applied, in its one \<^verbatim>\<open>tcsetattr\<close>, those settings changed
  in exactly these places: \<^verbatim>\<open>INPCK\<close>, \<^verbatim>\<open>ISTRIP\<close> and \<^verbatim>\<open>IXON\<close> cleared in the input
  flags; \<^verbatim>\<open>OPOST\<close> and \<^verbatim>\<open>ONLCR\<close> set in the output flags; the character size
  \<^verbatim>\<open>CS8\<close> in the control flags; \<^verbatim>\<open>ICANON\<close> and \<^verbatim>\<open>IEXTEN\<close> cleared in the local
  flags, where \<^verbatim>\<open>ISIG\<close> stays as it was found; and the control characters \<^verbatim>\<open>VMIN\<close>
  and \<^verbatim>\<open>VTIME\<close> zero. Every other bit, control character and field is as it was found.
\<close>

theorem enableRawMode_applies_raw:
  assumes "tty s" and "enableRawMode s = Return s1" and "length (c_cc (tty_attr s)) = NCCS"
  shows "orig_termios s1 = tty_attr s
    \<and> filter is_restore (new_events s (enableRawMode s)) = [Tcsetattr (tty_attr s1) True]
    \<and> c_iflag (tty_attr s1) AND (INPCK OR ISTRIP OR IXON) = 0
    \<and> c_iflag (tty_attr s1) AND NOT (INPCK OR ISTRIP OR IXON)
        = c_iflag (tty_attr s) AND NOT (INPCK OR ISTRIP OR IXON)
    \<and> c_oflag (tty_attr s1) AND (OPOST OR ONLCR) = OPOST OR ONLCR
    \<and> c_oflag (tty_attr s1) AND NOT (OPOST OR ONLCR)
        = c_oflag (tty_attr s) AND NOT (OPOST OR ONLCR)
    \<and> c_cflag (tty_attr s1) AND CSIZE = CS8
    \<and> c_cflag (tty_attr s1) AND NOT CSIZE = c_cflag (tty_attr s) AND NOT CSIZE
    \<and> c_lflag (tty_attr s1) AND (ICANON OR IEXTEN) = 0
    \<and> c_lflag (tty_attr s1) AND NOT (ICANON OR IEXTEN)
        = c_lflag (tty_attr s) AND NOT (ICANON OR IEXTEN)
    \<and> c_lflag (tty_attr s1) AND ISIG = c_lflag (tty_attr s) AND ISIG
    \<and> length (c_cc (tty_attr s1)) = NCCS
    \<and> c_cc (tty_attr s1) ! VMIN = 0 \<and> c_cc (tty_attr s1) ! VTIME = 0
    \<and> (\<forall>i<NCCS. i \<noteq> VMIN \<longrightarrow> i \<noteq> VTIME \<longrightarrow>
          c_cc (tty_attr s1) ! i = c_cc (tty_attr s) ! i)
    \<and> c_line (tty_attr s1) = c_line (tty_attr s)
    \<and> c_ispeed (tty_attr s1) = c_ispeed (tty_attr s)
    \<and> c_ospeed (tty_attr s1) = c_ospeed (tty_attr s)"
proof -
  from assms(1,2) have s1: "s1 = s\<lparr>tc_results := tl (tl (tc_results s)),
      orig_termios := tty_attr s, tty_attr := raw_termios (tty_attr s), inRawMode := True,
      trace := trace s @ [Isatty, Tcgetattr True, Tcsetattr (raw_termios (tty_attr s)) True]\<rparr>"
    by (simp add: enableRawMode_cases split: if_splits)
  then have a: "tty_attr s1 = raw_termios (tty_attr s)" "orig_termios s1 = tty_attr s"
    by simp_all
  have "new_events s (Return s1) = [Isatty, Tcgetattr True, Tcsetattr (tty_attr s1) True]"
    by (simp add: s1)
  then have b: "filter is_restore (new_events s (enableRawMode s)) = [Tcsetattr (tty_attr s1) True]"
    by (simp add: assms(2))
  show ?thesis
    unfolding a(1)
    using a(2) b [unfolded a(1)] raw_iflag [of "tty_attr s"] raw_oflag [of "tty_attr s"]
      raw_cflag [of "tty_attr s"] raw_lflag [of "tty_attr s"] raw_cc [OF assms(3)]
      raw_rest [of "tty_attr s"]
    by blast
qed

theorem enableRawMode_applies_raw_witness:
  "tty console \<and> enableRawMode console = Return after_enable
    \<and> length (c_cc (tty_attr console)) = NCCS
    \<and> filter is_restore (new_events console (enableRawMode console))
        = [Tcsetattr (tty_attr after_enable) True]
    \<and> c_iflag (tty_attr console) = 1280 \<and> c_iflag (tty_attr after_enable) = 256
    \<and> c_lflag (tty_attr console) = 35387 \<and> c_lflag (tty_attr after_enable) = 2617
    \<and> c_lflag (tty_attr after_enable) AND ISIG = ISIG
    \<and> c_cc (tty_attr console) ! VMIN = 1 \<and> c_cc (tty_attr after_enable) ! VMIN = 0"
proof -
  have h1: "tty console" "length (c_cc (tty_attr console)) = NCCS"
    by (simp_all add: console_def cooked_def NCCS_def)
  have h2: "enableRawMode console = Return after_enable"
    by (simp add: enable_console after_enable_eq)
  note h = h1(1) h2 h1(2)
  have "c_iflag (tty_attr console) = 1280" "c_iflag (tty_attr after_enable) = 256"
    "c_lflag (tty_attr console) = 35387" "c_lflag (tty_attr after_enable) = 2617"
    "c_lflag (tty_attr console) AND ISIG = ISIG"
    "c_cc (tty_attr console) ! VMIN = 1"
    by (simp_all add: after_enable_eq console_def cooked_def raw_termios_def termios_consts)
  with h enableRawMode_applies_raw [OF h] show ?thesis
    by simp
qed

text \<open>
  Claim C9. When \<^verbatim>\<open>disableRawMode\<close> is called on an interactive terminal with the flag true
  and \<^verbatim>\<open>tcsetattr\<close> fails, \<^verbatim>\<open>die\<close> is entered in a state whose flag is already false; it
  reports the failure and ends the process with status 1. The terminal keeps the settings it
  had, and a further \<^verbatim>\<open>disableRawMode\<close>, as \<^verbatim>\<open>exit\<close> may run it, does nothing.
\<close>

theorem disable_restore_failure:
  assumes "tty s" and "inRawMode s" and "\<not> next_tc_ok s"
  shows "(\<exists>s1. \<not> inRawMode s1 \<and> tty_attr s1 = tty_attr s
            \<and> trace s1 = trace s @ [Isatty, Tcsetattr (orig_termios s) False]
            \<and> disableRawMode s = die ''disableRawMode(): tcsetattr() failure'' s1)
    \<and> exit_status (disableRawMode s) = Some 1
    \<and> new_events s (disableRawMode s) =
        [Isatty, Tcsetattr (orig_termios s) False,
         Perror ''disableRawMode(): tcsetattr() failure'', Exit_call 1]
    \<and> \<not> inRawMode (final_state (disableRawMode s))
    \<and> disableRawMode (final_state (disableRawMode s)) =
        Return (log Isatty (final_state (disableRawMode s)))"
proof -
  let ?s1 = "s\<lparr>tc_results := tl (tc_results s), inRawMode := False,
                trace := trace s @ [Isatty, Tcsetattr (orig_termios s) False]\<rparr>"
  have "disableRawMode s = die ''disableRawMode(): tcsetattr() failure'' ?s1"
    using assms by (simp add: disableRawMode_cases sys_defs)
  then have "\<exists>s1. \<not> inRawMode s1 \<and> tty_attr s1 = tty_attr s
            \<and> trace s1 = trace s @ [Isatty, Tcsetattr (orig_termios s) False]
            \<and> disableRawMode s = die ''disableRawMode(): tcsetattr() failure'' s1"
    by (intro exI [of _ ?s1]) simp
  moreover have "exit_status (disableRawMode s) = Some 1"
    using assms by (simp add: disableRawMode_cases exit_status_def)
  moreover have "new_events s (disableRawMode s) =
        [Isatty, Tcsetattr (orig_termios s) False,
         Perror ''disableRawMode(): tcsetattr() failure'', Exit_call 1]"
    using assms by (simp add: disableRawMode_cases)
  moreover have "\<not> inRawMode (final_state (disableRawMode s))"
    using assms by (simp add: disableRawMode_cases final_state_def)
  moreover have "disableRawMode (final_state (disableRawMode s)) =
        Return (log Isatty (final_state (disableRawMode s)))"
    using assms by (simp add: disableRawMode_cases final_state_def)
  ultimately show ?thesis by blast
qed

theorem disable_restore_failure_witness:
  "tty (raw_console\<lparr>tc_results := [False]\<rparr>) \<and> inRawMode (raw_console\<lparr>tc_results := [False]\<rparr>)
    \<and> \<not> next_tc_ok (raw_console\<lparr>tc_results := [False]\<rparr>)
    \<and> exit_status (disableRawMode (raw_console\<lparr>tc_results := [False]\<rparr>)) = Some 1
    \<and> new_events (raw_console\<lparr>tc_results := [False]\<rparr>)
         (disableRawMode (raw_console\<lparr>tc_results := [False]\<rparr>)) =
        [Isatty, Tcsetattr cooked False,
         Perror ''disableRawMode(): tcsetattr() failure'', Exit_call 1]
    \<and> \<not> inRawMode (final_state (disableRawMode (raw_console\<lparr>tc_results := [False]\<rparr>)))"
  using disable_restore_failure [of "raw_console\<lparr>tc_results := [False]\<rparr>"]
  by (simp add: raw_console_def console_def next_tc_ok_def)

text \<open>
  Claim C10. On an interactive terminal, a call of \<^verbatim>\<open>enableRawMode\<close> that returns has
  overwritten the saved settings with those in effect just before it, whatever the flag was.
  So after a second such call the saved settings are the raw ones, and a
  \<^verbatim>\<open>disableRawMode\<close> that follows applies the raw settings, not those from before the first
  call.
\<close>

theorem enable_overwrites_saved_settings:
  assumes "tty s" and "enableRawMode s = Return s1"
  shows "orig_termios s1 = tty_attr s
    \<and> (\<forall>s2 s3. enableRawMode s1 = Return s2 \<longrightarrow> disableRawMode s2 = Return s3 \<longrightarrow>
          orig_termios s2 = raw_termios (tty_attr s)
        \<and> new_events s2 (disableRawMode s2) = [Isatty, Tcsetattr (raw_termios (tty_attr s)) True]
        \<and> tty_attr s3 = raw_termios (tty_attr s))"
proof -
  from assms have s1: "s1 = s\<lparr>tc_results := tl (tl (tc_results s)), orig_termios := tty_attr s,
              tty_attr := raw_termios (tty_attr s), inRawMode := True,
              trace := trace s @ [Isatty, Tcgetattr True,
                Tcsetattr (raw_termios (tty_attr s)) True]\<rparr>"
    by (simp add: enableRawMode_cases split: if_splits)
  have a: "orig_termios s1 = tty_attr s" "tty s1" "tty_attr s1 = raw_termios (tty_attr s)"
    using assms(1) by (simp_all add: s1)
  have b: "orig_termios s2 = raw_termios (tty_attr s)
        \<and> new_events s2 (disableRawMode s2) = [Isatty, Tcsetattr (raw_termios (tty_attr s)) True]
        \<and> tty_attr s3 = raw_termios (tty_attr s)"
    if e: "enableRawMode s1 = Return s2" and d: "disableRawMode s2 = Return s3" for s2 s3
  proof -
    from e a have s2: "orig_termios s2 = raw_termios (tty_attr s)" "tty s2" "inRawMode s2"
      by (auto simp add: enableRawMode_cases split: if_splits)
    with d show ?thesis
      by (auto simp add: disableRawMode_cases split: if_splits)
  qed
  from a(1) b show ?thesis by blast
qed

theorem enable_overwrites_saved_settings_witness:
  "tty console \<and> enableRawMode console = Return after_enable
    \<and> inRawMode after_enable
    \<and> enableRawMode after_enable = Return after_enable_twice
    \<and> disableRawMode after_enable_twice = Return (final_state (disableRawMode after_enable_twice))
    \<and> orig_termios after_enable = cooked
    \<and> orig_termios after_enable_twice = raw_termios cooked
    \<and> tty_attr (final_state (disableRawMode after_enable_twice)) = raw_termios cooked
    \<and> raw_termios cooked \<noteq> cooked"
proof -
  have h1: "tty console"
    by (simp add: console_def)
  have h2: "enableRawMode console = Return after_enable"
    by (simp add: enable_console after_enable_eq)
  have h3: "enableRawMode after_enable = Return after_enable_twice"
    by (simp add: enable_after_enable after_enable_twice_eq)
  have h4: "disableRawMode after_enable_twice =
      Return (final_state (disableRawMode after_enable_twice))"
    by (simp add: after_enable_twice_eq disableRawMode_cases console_def next_tc_ok_def
        final_state_def)
  have h5: "inRawMode after_enable" "tty_attr console = cooked"
    by (simp_all add: after_enable_eq console_def)
  from enable_overwrites_saved_settings [OF h1 h2] h3 h4
  have "orig_termios after_enable = tty_attr console
    \<and> orig_termios after_enable_twice = raw_termios (tty_attr console)
    \<and> tty_attr (final_state (disableRawMode after_enable_twice)) = raw_termios (tty_attr console)"
    by blast
  with h1 h2 h3 h4 h5 raw_cooked_differs show ?thesis by simp
qed

subsection \<open>The run loop\<close>

text \<open>
  A \<^verbatim>\<open>read\<close> that never waits takes what standard input holds at its time; one that
  waits skips the idle times and takes the next byte or end of file.
\<close>

lemma new_events_Blocked:
  "trace s' = trace s @ es \<Longrightarrow> new_events s (Blocked s') = es"
  by (simp add: new_events_def final_state_def)

lemma read_outcome_polling:
  "read_outcome True input =
     Some (case input of [] \<Rightarrow> None | x # _ \<Rightarrow> stored x, tl input)"
proof (cases input)
  case Nil
  then show ?thesis by simp
next
  case (Cons x rest)
  then show ?thesis by (cases x) simp_all
qed

lemma read_outcome_waiting:
  "read_outcome False input =
     (case dropWhile (\<lambda>x. x = Idle) input of
        [] \<Rightarrow> None
      | x # rest \<Rightarrow> Some (stored x, rest))"
proof (induction input)
  case Nil
  show ?case by simp
next
  case (Cons x rest)
  then show ?case by (cases x) simp_all
qed

lemma nonidle_dropWhile:
  "nonidle input =
     (case dropWhile (\<lambda>x. x = Idle) input of
        [] \<Rightarrow> []
      | x # rest \<Rightarrow> x # nonidle rest)"
proof (induction input)
  case Nil
  show ?case by (simp add: nonidle_def)
next
  case (Cons x rest)
  then show ?case by (cases x) (simp_all add: nonidle_def)
qed

lemma read_stdin_polling:
  assumes "polling s"
  shows "read_stdin s =
    Some (case stdin s of Byte b # _ \<Rightarrow> b | _ \<Rightarrow> 0,
          s\<lparr>stdin := tl (stdin s),
            trace := trace s @ [Read_stdin (case stdin s of [] \<Rightarrow> None | x # _ \<Rightarrow> stored x)]\<rparr>)"
  using assms
  by (simp add: read_stdin_def read_outcome_polling log_def
      split: list.splits pending.splits)

lemma polling_frame:
  "polling (s\<lparr>stdin := i, trace := t\<rparr>) = polling s"
  by (simp add: polling_def)

lemma loop_iteration_polling:
  assumes "has_loop sk" and "polling s"
  shows "loop_iteration sk s =
    Return (s\<lparr>stdin := tl (stdin s),
              trace := trace s @ pass_events (case stdin s of [] \<Rightarrow> None | x # _ \<Rightarrow> stored x)\<rparr>)"
  using assms
  by (simp add: loop_iteration_def read_stdin_polling call_weak_def yield_def log_def
      pass_events_def forwarded_def split: list.splits pending.splits)

lemma service_loop_polling:
  assumes "has_loop sk"
  shows "polling s \<Longrightarrow> service_loop n sk s =
    Running (s\<lparr>stdin := drop n (stdin s),
               trace := trace s @ concat (map pass_events (polled n (stdin s)))\<rparr>)"
proof (induction n arbitrary: s)
  case 0
  show ?case by simp
next
  case (Suc n)
  let ?s' = "s\<lparr>stdin := tl (stdin s),
              trace := trace s @ pass_events (case stdin s of [] \<Rightarrow> None | x # _ \<Rightarrow> stored x)\<rparr>"
  have p: "polling ?s'"
    using Suc.prems by (simp add: polling_frame)
  have l: "service_loop (Suc n) sk s = service_loop n sk ?s'"
    by (simp add: loop_iteration_polling [OF assms Suc.prems])
  show ?case
    unfolding l Suc.IH [OF p]
    by (cases "stdin s") (simp_all add: drop_Suc)
qed

lemma loop_iteration_waiting:
  assumes "has_loop sk" and "\<not> polling s"
  shows "loop_iteration sk s =
    (case dropWhile (\<lambda>x. x = Idle) (stdin s) of
       [] \<Rightarrow> Blocked s
     | x # rest \<Rightarrow> Return (s\<lparr>stdin := rest, trace := trace s @ pass_events (stored x)\<rparr>))"
proof (cases "dropWhile (\<lambda>x. x = Idle) (stdin s)")
  case Nil
  have "read_outcome False (stdin s) = None"
    by (simp only: read_outcome_waiting Nil list.case)
  then have "loop_iteration sk s = Blocked s"
    using assms(2) by (simp add: loop_iteration_def read_stdin_def)
  then show ?thesis
    by (simp only: Nil list.case)
next
  case (Cons x rest)
  have "read_outcome False (stdin s) = Some (stored x, rest)"
    by (simp only: read_outcome_waiting Cons list.case)
  then have "loop_iteration sk s =
      Return (s\<lparr>stdin := rest, trace := trace s @ pass_events (stored x)\<rparr>)"
    using assms
    by (simp add: loop_iteration_def read_stdin_def call_weak_def yield_def
      log_def pass_events_def forwarded_def split: option.splits)
  then show ?thesis
    by (simp only: Cons list.case)
qed

lemma service_loop_waiting:
  assumes "has_loop sk"
  shows "\<not> polling s \<Longrightarrow>
    trace (final_state (service_loop n sk s))
      = trace s @ concat (map pass_events (waited n (stdin s)))
    \<and> is_running (service_loop n sk s) = (n \<le> length (nonidle (stdin s)))
    \<and> is_blocked (service_loop n sk s) = (length (nonidle (stdin s)) < n)"
proof (induction n arbitrary: s)
  case 0
  show ?case by (simp add: final_state_def waited_def is_running_def is_blocked_def)
next
  case (Suc n)
  show ?case
  proof (cases "dropWhile (\<lambda>x. x = Idle) (stdin s)")
    case Nil
    have e: "nonidle (stdin s) = []"
      using nonidle_dropWhile [of "stdin s"] by (simp only: Nil list.case)
    have "loop_iteration sk s = Blocked s"
      using loop_iteration_waiting [OF assms Suc.prems] by (simp only: Nil list.case)
    then show ?thesis
      by (simp add: e final_state_def waited_def is_running_def is_blocked_def)
  next
    case (Cons x rest)
    let ?s' = "s\<lparr>stdin := rest, trace := trace s @ pass_events (stored x)\<rparr>"
    have p: "\<not> polling ?s'"
      using Suc.prems by (simp add: polling_frame)
    have r: "nonidle (stdin s) = x # nonidle rest"
      using nonidle_dropWhile [of "stdin s"] by (simp only: Cons list.case)
    have "loop_iteration sk s = Return ?s'"
      using loop_iteration_waiting [OF assms Suc.prems] by (simp only: Cons list.case)
    then have l: "service_loop (Suc n) sk s = service_loop n sk ?s'"
      by simp
    from Suc.IH [OF p] show ?thesis
      unfolding l by (simp add: r waited_def)
  qed
qed


lemma filter_insert_pass:
  "filter is_insert (pass_events r) = map InsertChar (forwarded r)"
  by (simp add: pass_events_def filter_empty_conv)

lemma filter_insert_passes:
  "filter is_insert (concat (map pass_events rs)) = map InsertChar (concat (map forwarded rs))"
  by (induction rs) (simp_all add: filter_insert_pass)

lemma new_events_final:
  "trace (final_state r) = trace s @ es \<Longrightarrow> new_events s r = es"
  by (simp add: new_events_def)

lemma not_return_if_running_or_blocked:
  "is_running r \<or> is_blocked r \<Longrightarrow> \<not> is_return r"
  by (cases r) (simp_all add: is_running_def is_blocked_def is_return_def)

text \<open>
  Claim C8. In a pass of the service loop the byte that \<^verbatim>\<open>read\<close> stored is handed, as it
  is, to exactly one call of \<^verbatim>\<open>Serial.insertChar\<close>, unless it is zero or nothing was read:
  then there is no call. The byte read is the one standard input holds, or, where
  \<^verbatim>\<open>read\<close> waits, the next one to arrive. Over any number of passes the calls are the
  nonzero bytes read, in the order read.
\<close>

theorem bytes_forwarded_verbatim:
  assumes "has_loop sk"
  shows "filter is_insert (new_events s (loop_iteration sk s)) =
      (case (if polling s then stdin s else nonidle (stdin s)) of
         Byte b # _ \<Rightarrow> if b \<noteq> 0 then [InsertChar b] else []
       | _ \<Rightarrow> [])
    \<and> filter is_insert (new_events s (service_loop n sk s)) =
        map InsertChar (concat (map forwarded (reads (polling s) n (stdin s))))"
proof (cases "polling s")
  case True
  have "filter is_insert (new_events s (loop_iteration sk s)) =
      map InsertChar (forwarded (case stdin s of [] \<Rightarrow> None | x # _ \<Rightarrow> stored x))"
    by (simp add: loop_iteration_polling [OF assms True] filter_insert_pass)
  then have "filter is_insert (new_events s (loop_iteration sk s)) =
      (case stdin s of
         Byte b # _ \<Rightarrow> if b \<noteq> 0 then [InsertChar b] else []
       | _ \<Rightarrow> [])"
    by (simp add: forwarded_def split: list.splits pending.splits)
  moreover have "filter is_insert (new_events s (service_loop n sk s)) =
        map InsertChar (concat (map forwarded (polled n (stdin s))))"
    by (simp add: service_loop_polling [OF assms True] new_events_Running filter_insert_passes)
  ultimately show ?thesis
    using True by (simp add: reads_def)
next
  case False
  have one: "filter is_insert (new_events s (loop_iteration sk s)) =
      (case nonidle (stdin s) of
         Byte b # _ \<Rightarrow> if b \<noteq> 0 then [InsertChar b] else []
       | _ \<Rightarrow> [])"
  proof (cases "dropWhile (\<lambda>x. x = Idle) (stdin s)")
    case Nil
    have e: "nonidle (stdin s) = []"
      using nonidle_dropWhile [of "stdin s"] by (simp only: Nil list.case)
    have "loop_iteration sk s = Blocked s"
      using loop_iteration_waiting [OF assms False] by (simp only: Nil list.case)
    then show ?thesis
      by (simp add: e new_events_Blocked)
  next
    case (Cons x rest)
    have e: "nonidle (stdin s) = x # nonidle rest"
      using nonidle_dropWhile [of "stdin s"] by (simp only: Cons list.case)
    have "loop_iteration sk s =
        Return (s\<lparr>stdin := rest, trace := trace s @ pass_events (stored x)\<rparr>)"
      using loop_iteration_waiting [OF assms False] by (simp only: Cons list.case)
    then show ?thesis
      by (cases x) (simp_all add: e filter_insert_pass forwarded_def)
  qed
  from service_loop_waiting [OF assms False, of n]
  have "new_events s (service_loop n sk s) = concat (map pass_events (waited n (stdin s)))"
    by (simp add: new_events_final)
  then have "filter is_insert (new_events s (service_loop n sk s)) =
        map InsertChar (concat (map forwarded (waited n (stdin s))))"
    by (simp add: filter_insert_passes)
  with one False show ?thesis
    by (simp add: reads_def)
qed

lemma polling_typed_A_raw: "polling typed_A_raw"
  by (simp add: polling_def typed_A_raw_def raw_console_def console_def raw_termios_def
      cooked_def termios_consts)

lemma not_polling_piped_A: "\<not> polling piped_A"
  by (simp add: polling_def piped_A_def piped_def console_def)

theorem bytes_forwarded_verbatim_witness:
  "has_loop full_sketch
    \<and> filter is_insert (new_events (typed_A_raw\<lparr>stdin := [Byte 65]\<rparr>)
         (loop_iteration full_sketch (typed_A_raw\<lparr>stdin := [Byte 65]\<rparr>))) = [InsertChar 65]
    \<and> filter is_insert (new_events (typed_A_raw\<lparr>stdin := [Byte 0]\<rparr>)
         (loop_iteration full_sketch (typed_A_raw\<lparr>stdin := [Byte 0]\<rparr>))) = []
    \<and> filter is_insert (new_events typed_A_raw (service_loop 7 full_sketch typed_A_raw))
        = [InsertChar 65, InsertChar 10]
    \<and> filter is_insert (new_events piped_A (service_loop 7 full_sketch piped_A))
        = [InsertChar 65, InsertChar 10]"
proof -
  have h: "has_loop full_sketch"
    by (simp add: full_sketch_def)
  have p: "polling (typed_A_raw\<lparr>stdin := i\<rparr>)" for i
    using polling_typed_A_raw by (simp add: polling_def)
  have r: "reads True 7 (stdin typed_A_raw) = [None, Some 65, None, Some 0, Some 10, None, None]"
    "reads False 7 (stdin piped_A) = [Some 65, Some 0, Some 10, None]"
    by (simp_all add: reads_def waited_def nonidle_def typed_A_raw_def piped_A_def
        numeral_eq_Suc)
  show ?thesis
    using h bytes_forwarded_verbatim [OF h, of "typed_A_raw\<lparr>stdin := [Byte 65]\<rparr>" 0]
      bytes_forwarded_verbatim [OF h, of "typed_A_raw\<lparr>stdin := [Byte 0]\<rparr>" 0]
      bytes_forwarded_verbatim [OF h, of typed_A_raw 7]
      bytes_forwarded_verbatim [OF h, of piped_A 7]
    by (simp add: p polling_typed_A_raw not_polling_piped_A r forwarded_def)
qed

lemma enableRawMode_events:
  assumes "enableRawMode s = Return s1"
  shows "trace s1 = trace s @ enable_events s \<and> stdin s1 = stdin s \<and> tty s1 = tty s
    \<and> tty_attr s1 = (if tty s then raw_termios (tty_attr s) else tty_attr s)"
  using assms
  by (auto simp add: enableRawMode_cases enable_events_def log_def split: if_splits)

lemma raw_icanon: "c_lflag (raw_termios t) AND ICANON = 0"
proof -
  have "(x AND NOT (a OR b)) AND a = 0" for x a b :: tcflag_t
    by (auto simp add: bit_eq_iff bit_simps)
  then show ?thesis
    by (simp only: raw_fields)
qed

lemma polling_raw:
  "length (c_cc t) = NCCS \<Longrightarrow> polling (s\<lparr>tty_attr := raw_termios t\<rparr>) = tty s"
  using raw_cc [of t] by (simp add: polling_def raw_icanon)

text \<open>
  Claim C6 as stated fails for a program without \<^verbatim>\<open>setup\<close>: the call is made all the
  same, through a null address, and the service loop is never entered.
\<close>

theorem main_missing_setup:
  "arduino_main 3 \<lparr>has_setup = False, has_loop = True\<rparr> piped =
     Crash (piped\<lparr>trace := [Signal_SIGINT, Atexit_disableRawMode, Isatty]\<rparr>)"
  by (simp add: arduino_main_def enableRawMode_cases call_weak_def log_def piped_def console_def)

text \<open>
  Claim C6, as amended. For a program that defines both \<^verbatim>\<open>setup\<close> and \<^verbatim>\<open>loop\<close>, and when
  \<^verbatim>\<open>enableRawMode\<close> returns, \<^verbatim>\<open>__main\<close> registers the interrupt handler, registers
  \<^verbatim>\<open>disableRawMode\<close> as exit function, calls \<^verbatim>\<open>enableRawMode\<close>, calls \<^verbatim>\<open>setup\<close> once,
  and then repeats: read one byte, hand it to \<^verbatim>\<open>Serial.insertChar\<close> if it is not zero, call
  \<^verbatim>\<open>loop\<close>, sleep 1000 microseconds. \<^verbatim>\<open>__main\<close> does not return. On a terminal the
  read never waits, raw mode being on, and after any number of passes the loop is still
  running. When standard input is not a terminal the read waits: the passes made are those
  for which a byte or an end of file arrives, and once nothing arrives any more the loop
  stays in \<^verbatim>\<open>read\<close>.
\<close>

theorem main_startup_order:
  assumes "has_setup sk" and "has_loop sk"
    and "enableRawMode (log Atexit_disableRawMode (log Signal_SIGINT s)) = Return s1"
    and "length (c_cc (tty_attr s)) = NCCS"
  shows "\<not> is_return (arduino_main n sk s)
    \<and> new_events s (arduino_main n sk s) =
        [Signal_SIGINT, Atexit_disableRawMode] @ enable_events s @ [Call_setup]
        @ concat (map pass_events (reads (tty s) n (stdin s)))
    \<and> (tty s \<longrightarrow> is_running (arduino_main n sk s))
    \<and> (\<not> tty s \<longrightarrow>
          is_running (arduino_main n sk s) = (n \<le> length (nonidle (stdin s)))
        \<and> is_blocked (arduino_main n sk s) = (length (nonidle (stdin s)) < n))"
proof -
  let ?s2 = "log Call_setup s1"
  from enableRawMode_events [OF assms(3)]
  have t1: "trace s1 = trace s @ [Signal_SIGINT, Atexit_disableRawMode] @ enable_events s"
    and i1: "stdin s1 = stdin s" and y1: "tty s1 = tty s"
    and a1: "tty_attr s1 = (if tty s then raw_termios (tty_attr s) else tty_attr s)"
    by (simp_all add: log_def enable_events_def)
  have t2: "trace ?s2 = trace s @ [Signal_SIGINT, Atexit_disableRawMode] @ enable_events s
      @ [Call_setup]" and i2: "stdin ?s2 = stdin s"
    by (simp_all add: log_def t1 i1)
  have m: "arduino_main n sk s = service_loop n sk ?s2"
    using assms(1) by (simp add: arduino_main_def assms(3) call_weak_def)
  have p: "polling ?s2 = tty s"
  proof (cases "tty s")
    case True
    with a1 have "s1 = s1\<lparr>tty_attr := raw_termios (tty_attr s)\<rparr>"
      by simp
    then have "polling s1 = tty s1"
      using polling_raw [OF assms(4), of s1] by simp
    then show ?thesis
      by (simp add: y1 polling_def log_def)
  next
    case False
    then show ?thesis
      by (simp add: y1 polling_def log_def)
  qed
  show ?thesis
  proof (cases "tty s")
    case True
    then have "polling ?s2" by (simp add: p)
    from service_loop_polling [OF assms(2) this, of n]
    have "arduino_main n sk s =
      Running (?s2\<lparr>stdin := drop n (stdin s),
        trace := (trace s @ [Signal_SIGINT, Atexit_disableRawMode] @ enable_events s
          @ [Call_setup]) @ concat (map pass_events (polled n (stdin s)))\<rparr>)"
      by (simp only: m t2 i2)
    then show ?thesis
      using True by (simp add: is_return_def is_running_def new_events_Running reads_def)
  next
    case False
    then have "\<not> polling ?s2" by (simp add: p)
    from service_loop_waiting [OF assms(2) this, of n]
    have w: "trace (final_state (arduino_main n sk s)) =
        trace s @ ([Signal_SIGINT, Atexit_disableRawMode] @ enable_events s @ [Call_setup]
          @ concat (map pass_events (waited n (stdin s))))"
      and r: "is_running (arduino_main n sk s) = (n \<le> length (nonidle (stdin s)))"
      and b: "is_blocked (arduino_main n sk s) = (length (nonidle (stdin s)) < n)"
      by (simp_all only: m t2 i2 append_assoc)
    have "is_running (arduino_main n sk s) \<or> is_blocked (arduino_main n sk s)"
      unfolding r b by arith
    then have "\<not> is_return (arduino_main n sk s)"
      by (rule not_return_if_running_or_blocked)
    with new_events_final [OF w] r b False show ?thesis
      by (simp add: reads_def)
  qed
qed


theorem main_startup_order_witness:
  "has_setup full_sketch \<and> has_loop full_sketch
    \<and> length (c_cc (tty_attr typed_A)) = NCCS \<and> length (c_cc (tty_attr piped)) = NCCS
    \<and> is_return (enableRawMode (log Atexit_disableRawMode (log Signal_SIGINT typed_A)))
    \<and> is_return (enableRawMode (log Atexit_disableRawMode (log Signal_SIGINT piped)))
    \<and> tty typed_A
    \<and> is_running (arduino_main 2 full_sketch typed_A)
    \<and> new_events typed_A (arduino_main 2 full_sketch typed_A) =
        [Signal_SIGINT, Atexit_disableRawMode,
         Isatty, Tcgetattr True, Tcsetattr (raw_termios cooked) True,
         Call_setup,
         Read_stdin None, Call_loop, Usleep 1000,
         Read_stdin (Some 65), InsertChar 65, Call_loop, Usleep 1000]
    \<and> \<not> tty piped
    \<and> is_blocked (arduino_main 2 full_sketch piped)
    \<and> new_events piped (arduino_main 2 full_sketch piped) =
        [Signal_SIGINT, Atexit_disableRawMode, Isatty, Call_setup]"
proof -
  have h: "has_setup full_sketch" "has_loop full_sketch"
    by (simp_all add: full_sketch_def)
  have e1: "enableRawMode (log Atexit_disableRawMode (log Signal_SIGINT typed_A))
        = Return (final_state (enableRawMode (log Atexit_disableRawMode (log Signal_SIGINT typed_A))))"
    by (simp add: enableRawMode_cases final_state_def log_def typed_A_def console_def
        next_tc_ok_def)
  have e2: "enableRawMode (log Atexit_disableRawMode (log Signal_SIGINT piped))
        = Return (final_state (enableRawMode (log Atexit_disableRawMode (log Signal_SIGINT piped))))"
    by (simp add: enableRawMode_cases final_state_def log_def piped_def console_def)
  have l: "length (c_cc (tty_attr typed_A)) = NCCS" "length (c_cc (tty_attr piped)) = NCCS"
    by (simp_all add: typed_A_def piped_def console_def cooked_def NCCS_def)
  have y: "tty typed_A" "\<not> tty piped"
    by (simp_all add: typed_A_def piped_def console_def)
  have r: "reads True 2 (stdin typed_A) = [None, Some 65]" "reads False 2 (stdin piped) = []"
    "nonidle (stdin piped) = []"
    by (simp_all add: reads_def waited_def nonidle_def typed_A_def piped_def console_def
        numeral_eq_Suc)
  have v: "enable_events typed_A = [Isatty, Tcgetattr True, Tcsetattr (raw_termios cooked) True]"
    "enable_events piped = [Isatty]"
    by (simp_all add: enable_events_def typed_A_def piped_def console_def)
  have i: "is_return (enableRawMode (log Atexit_disableRawMode (log Signal_SIGINT typed_A)))"
    "is_return (enableRawMode (log Atexit_disableRawMode (log Signal_SIGINT piped)))"
    by (subst e1, simp add: is_return_def) (subst e2, simp add: is_return_def)
  from main_startup_order [OF h e1 l(1), of 2] main_startup_order [OF h e2 l(2), of 2]
    h l y i show ?thesis
    by (simp add: r v pass_events_def forwarded_def)
qed

subsection \<open>The clock\<close>

text \<open>
  Claim C7 as stated fails when the clock cannot be read: there is no abort, and the value
  returned is computed from the local \<^verbatim>\<open>spec\<close> as it happened to be.
\<close>

theorem millis_unset_time:
  "millis None \<lparr>tv_sec = 7, tv_nsec = 5000000\<rparr> = Returned 7005
    \<and> micros None \<lparr>tv_sec = 7, tv_nsec = 5000000\<rparr> = Returned 7005000"
  by (simp add: millis_def micros_def clock_gettime_def long_div_def)

lemma sint_nonneg_uint:
  fixes a :: ulong
  assumes "0 \<le> sint a"
  shows "sint a = uint a"
proof -
  have "uint a = uint (word_of_int (sint a) :: ulong)"
    by simp
  also have "\<dots> = sint a mod 2 ^ 64"
    by (simp only: uint_word_of_int) simp
  also have "\<dots> = sint a"
    using assms sint_lt [of a] by (intro mod_pos_pos_trivial) simp_all
  finally show ?thesis by simp
qed

lemma uint_ulong_less: "uint (a :: ulong) < 2 ^ 64"
  using uint_bounded [of a] by simp

lemma millis_value:
  fixes sec nsec :: ulong
  assumes "0 \<le> sint sec" and "sint sec < 2 ^ 43" and "0 \<le> sint nsec"
  shows "uint (sec * 1000 + nsec div 1000000) = sint sec * 1000 + sint nsec div 1000000"
proof -
  have s: "sint sec = uint sec" and n: "sint nsec = uint nsec"
    using assms by (simp_all add: sint_nonneg_uint)
  have q: "0 \<le> uint nsec div 1000000" "uint nsec div 1000000 < 2 ^ 63"
    using uint_ulong_less [of nsec] uint_nonnegative [of nsec]
    by (simp_all add: pos_imp_zdiv_nonneg_iff)
  have z: "0 \<le> uint sec * 1000"
    using uint_nonnegative [of sec] by simp
  have a: "uint (sec * 1000) = uint sec * 1000"
    using assms(2) s by (simp add: uint_word_ariths)
  have "uint (sec * 1000 + nsec div 1000000) = (uint sec * 1000 + uint nsec div 1000000) mod 2 ^ 64"
    by (simp add: uint_word_ariths(1) a uint_div)
  also have "\<dots> = uint sec * 1000 + uint nsec div 1000000"
    using assms(2) s q z by (intro mod_pos_pos_trivial) simp_all
  finally show ?thesis by (simp add: s n)
qed

lemma micros_value:
  fixes sec nsec :: ulong
  assumes "0 \<le> sint sec" and "sint sec < 2 ^ 43" and "0 \<le> sint nsec"
  shows "uint (sec * 1000000 + long_div nsec 1000) = sint sec * 1000000 + sint nsec div 1000"
proof -
  have s: "sint sec = uint sec" and n: "sint nsec = uint nsec"
    using assms by (simp_all add: sint_nonneg_uint)
  have "sgn (sint nsec) * sgn (sint (1000 :: ulong))
      * (\<bar>sint nsec\<bar> div \<bar>sint (1000 :: ulong)\<bar>) = sint nsec div 1000"
    using assms(3) by (cases "sint nsec = 0") (simp_all add: sgn_if)
  then have d: "long_div nsec 1000 = word_of_int (sint nsec div 1000)"
    by (simp only: long_div_def)
  have q: "0 \<le> sint nsec div 1000" "sint nsec div 1000 < 2 ^ 63"
    using assms(3) uint_ulong_less [of nsec] uint_nonnegative [of nsec]
    by (simp_all add: n pos_imp_zdiv_nonneg_iff)
  have z: "0 \<le> uint sec * 1000000"
    using uint_nonnegative [of sec] by simp
  have "sint nsec div 1000 mod 2 ^ 64 = sint nsec div 1000"
    using q by (intro mod_pos_pos_trivial) simp_all
  then have u: "uint (long_div nsec 1000) = sint nsec div 1000"
    by (simp add: d uint_word_of_int)
  have a: "uint (sec * 1000000) = uint sec * 1000000"
    using assms(2) s by (simp add: uint_word_ariths)
  have "uint (sec * 1000000 + long_div nsec 1000)
      = (uint sec * 1000000 + sint nsec div 1000) mod 2 ^ 64"
    by (simp add: uint_word_ariths(1) a u)
  also have "\<dots> = uint sec * 1000000 + sint nsec div 1000"
    using assms(2) s q z by (intro mod_pos_pos_trivial) simp_all
  finally show ?thesis by (simp add: s)
qed

text \<open>
  Claim C7, as amended. \<^verbatim>\<open>millis\<close> and \<^verbatim>\<open>micros\<close> always return a value and never
  abort: the result of \<^verbatim>\<open>clock_gettime\<close> is not looked at, and after a failed read the
  value is the one a successful read of the local \<^verbatim>\<open>spec\<close>, as it happened to be, would
  give. When the clock was read, with seconds from 0 to below \<open>2 ^ 43\<close> and nanoseconds
  not negative, the value is the time read, in milliseconds or microseconds, without
  wrap-around.
\<close>

theorem clock_reads_never_abort:
  "millis clk uninit \<noteq> Aborted \<and> micros clk uninit \<noteq> Aborted
    \<and> millis None uninit = millis (Some uninit) uninit
    \<and> micros None uninit = micros (Some uninit) uninit
    \<and> (0 \<le> sint (tv_sec now) \<and> sint (tv_sec now) < 2 ^ 43 \<and> 0 \<le> sint (tv_nsec now) \<longrightarrow>
        (\<exists>ms us. millis (Some now) uninit = Returned ms \<and> micros (Some now) uninit = Returned us
          \<and> uint ms = sint (tv_sec now) * 1000 + sint (tv_nsec now) div 1000000
          \<and> uint us = sint (tv_sec now) * 1000000 + sint (tv_nsec now) div 1000))"
  using millis_value [of "tv_sec now" "tv_nsec now"] micros_value [of "tv_sec now" "tv_nsec now"]
  by (simp add: millis_def micros_def clock_gettime_def Let_def)

theorem clock_reads_never_abort_witness:
  "0 \<le> sint (tv_sec \<lparr>tv_sec = 12, tv_nsec = 345678901\<rparr>)
    \<and> sint (tv_sec \<lparr>tv_sec = 12, tv_nsec = 345678901\<rparr>) < 2 ^ 43
    \<and> 0 \<le> sint (tv_nsec \<lparr>tv_sec = 12, tv_nsec = 345678901\<rparr>)
    \<and> millis (Some \<lparr>tv_sec = 12, tv_nsec = 345678901\<rparr>) \<lparr>tv_sec = 0, tv_nsec = 0\<rparr> = Returned 12345
    \<and> micros (Some \<lparr>tv_sec = 12, tv_nsec = 345678901\<rparr>) \<lparr>tv_sec = 0, tv_nsec = 0\<rparr> = Returned 12345678
    \<and> millis None \<lparr>tv_sec = 0, tv_nsec = 0\<rparr> \<noteq> Aborted"
  using clock_reads_never_abort [of None "\<lparr>tv_sec = 0, tv_nsec = 0\<rparr>" "\<lparr>tv_sec = 12, tv_nsec = 345678901\<rparr>"]
  by (simp add: millis_def micros_def clock_gettime_def long_div_def)

text \<open>
  The division in \<^verbatim>\<open>micros\<close> is signed: a negative \<^verbatim>\<open>tv_nsec\<close> takes the value down.
\<close>

lemma micros_negative_nsec:
  "micros (Some \<lparr>tv_sec = 3, tv_nsec = - 1000\<rparr>) u = Returned 2999999"
  by (simp add: micros_def clock_gettime_def long_div_def)

end
